theory Spec2Isabelle
  imports Complex_Main
begin

section \<open>Values read from the outside\<close>

text \<open>
  Both schemas and the gallery store work on values that come out of \<^verbatim>\<open>JSON.parse\<close>
  (the local storage entry) or out of \<^verbatim>\<open>response.json()\<close> (the catalog).
  A number is a double. The code only asks whether a value is a number and compares
  identifiers with \<^verbatim>\<open>===\<close>, so a finite number is written as the rational it
  denotes (\<^verbatim>\<open>1.5\<close> is \<open>3/2\<close>, and \<^verbatim>\<open>-0\<close> is \<open>0\<close>, which \<^verbatim>\<open>===\<close> does
  not tell apart); a literal beyond the range of a double is read as an infinity, which
  has a constructor of its own (\<open>True\<close> for the negative one). A string is the
  sequence of its code units, which is what \<^verbatim>\<open>.length\<close> counts, written with one
  \<open>char\<close> for each unit; the code compares strings and counts their units and never
  looks at a unit. An object is the list of its own properties, a key standing for its
  first entry in the list; reading a property that is not there gives
  \<^verbatim>\<open>undefined\<close>, written \<open>None\<close>.
\<close>

datatype json =
    JNull
  | JBool bool
  | JNum rat
  | JInfinity bool
  | JStr string
  | JArr "json list"
  | JObj "(string \<times> json) list"

fun field :: "json \<Rightarrow> string \<Rightarrow> json option" where
  "field (JObj kvs) k = map_of kvs k"
| "field _ k = None"

section \<open>The schemas (noteSchema.ts, artworkSchema.ts)\<close>

text \<open>
  A Zod schema either returns the parsed value or throws a \<^verbatim>\<open>ZodError\<close> that
  carries every issue found, each with its code and the path of the field.
\<close>

datatype zod_issue =
    Invalid_type "string list"
  | Too_big "string list"

type_synonym 'a parsed = "zod_issue list + 'a"

type_synonym 'a schema = "string list \<Rightarrow> json option \<Rightarrow> 'a parsed"

text \<open>A field that may be left out: \<^verbatim>\<open>undefined\<close> or a value.\<close>

datatype 'a optional = Undefined | Present 'a

text \<open>
  \<^verbatim>\<open>z.number()\<close>, \<^verbatim>\<open>z.string()\<close> and \<^verbatim>\<open>z.string().max(n)\<close>. The number
  schema of Zod 4, the version the project names, accepts finite numbers only.
\<close>

definition z_number :: "rat schema" where
  "z_number p v = (case v of Some (JNum n) \<Rightarrow> Inr n | _ \<Rightarrow> Inl [Invalid_type p])"

definition z_string :: "string schema" where
  "z_string p v = (case v of Some (JStr s) \<Rightarrow> Inr s | _ \<Rightarrow> Inl [Invalid_type p])"

definition z_string_max :: "nat \<Rightarrow> string schema" where
  "z_string_max n p v =
     (case z_string p v of
        Inl e \<Rightarrow> Inl e
      | Inr s \<Rightarrow> if length s > n then Inl [Too_big p] else Inr s)"

text \<open>
  \<^verbatim>\<open>.nullable()\<close> lets \<^verbatim>\<open>null\<close> through, \<^verbatim>\<open>.optional()\<close> lets \<^verbatim>\<open>undefined\<close>
  through, \<^verbatim>\<open>.default(d)\<close> answers \<open>d\<close> for \<^verbatim>\<open>undefined\<close>; every other input goes
  to the inner schema.
\<close>

definition z_nullable :: "'a schema \<Rightarrow> 'a option schema" where
  "z_nullable sc p v =
     (case v of
        Some JNull \<Rightarrow> Inr None
      | _ \<Rightarrow> (case sc p v of Inl e \<Rightarrow> Inl e | Inr x \<Rightarrow> Inr (Some x)))"

definition z_optional :: "'a schema \<Rightarrow> 'a optional schema" where
  "z_optional sc p v =
     (case v of
        None \<Rightarrow> Inr Undefined
      | _ \<Rightarrow> (case sc p v of Inl e \<Rightarrow> Inl e | Inr x \<Rightarrow> Inr (Present x)))"

definition z_default :: "'a schema \<Rightarrow> 'a \<Rightarrow> 'a schema" where
  "z_default sc d p v = (case v of None \<Rightarrow> Inr d | _ \<Rightarrow> sc p v)"

text \<open>
  \<^verbatim>\<open>z.object\<close> parses every field of its shape and throws all their issues together.
\<close>

definition z_both :: "'a parsed \<Rightarrow> 'b parsed \<Rightarrow> ('a \<times> 'b) parsed" where
  "z_both a b =
     (case a of
        Inl e1 \<Rightarrow> (case b of Inl e2 \<Rightarrow> Inl (e1 @ e2) | Inr y \<Rightarrow> Inl e1)
      | Inr x \<Rightarrow> (case b of Inl e2 \<Rightarrow> Inl e2 | Inr y \<Rightarrow> Inr (x, y)))"

text \<open>
  The record types \<^verbatim>\<open>Artwork\<close> and \<^verbatim>\<open>SavedArtwork\<close> inferred from the schemas.
  A nullable field is an \<open>option\<close> (\<open>None\<close> is \<^verbatim>\<open>null\<close>). The field \<^verbatim>\<open>id\<close> is
  written \<open>id'\<close> and the field \<^verbatim>\<open>note\<close> is written \<open>note'\<close>.
\<close>

record Note =
  artworkId :: rat
  note' :: string

record Artwork =
  id' :: rat
  title :: string
  artist_title :: "string option"
  image_id :: "string option"
  date_display :: "string option optional"
  medium_display :: "string option optional"
  place_of_origin :: "string option optional"
  dimensions :: "string option optional"

record SavedArtwork = Artwork +
  note' :: string

definition Unbekannter_Titel :: string where
  "Unbekannter_Titel = ''Unbekannter Titel''"

definition Unbekannter_Kuenstler :: string where
  "Unbekannter_Kuenstler = ''Unbekannter K'' @ [CHR 0xFC] @ ''nstler''"

definition NoteSchema_parse :: "json \<Rightarrow> Note parsed" where
  "NoteSchema_parse v =
     (case v of
        JObj kvs \<Rightarrow>
          (case z_both (z_number [''artworkId''] (field v ''artworkId''))
                       (z_default (z_string_max 500) '''' [''note''] (field v ''note'')) of
             Inl e \<Rightarrow> Inl e
           | Inr (a, n) \<Rightarrow> Inr \<lparr>artworkId = a, Note.note' = n\<rparr>)
      | _ \<Rightarrow> Inl [Invalid_type []])"

definition SavedArtworkSchema_parse :: "json \<Rightarrow> SavedArtwork parsed" where
  "SavedArtworkSchema_parse v =
     (case v of
        JObj kvs \<Rightarrow>
          (case z_both (z_number [''id''] (field v ''id''))
               (z_both (z_string [''title''] (field v ''title''))
               (z_both (z_nullable z_string [''artist_title''] (field v ''artist_title''))
               (z_both (z_nullable z_string [''image_id''] (field v ''image_id''))
               (z_both (z_optional (z_nullable z_string) [''date_display'']
                          (field v ''date_display''))
               (z_both (z_optional (z_nullable z_string) [''medium_display'']
                          (field v ''medium_display''))
               (z_both (z_optional (z_nullable z_string) [''place_of_origin'']
                          (field v ''place_of_origin''))
               (z_both (z_optional (z_nullable z_string) [''dimensions'']
                          (field v ''dimensions''))
                       (z_default z_string '''' [''note''] (field v ''note''))))))))) of
             Inl e \<Rightarrow> Inl e
           | Inr (i, t, a, im, d, m, pl, di, n) \<Rightarrow>
               Inr \<lparr>id' = i, title = t, artist_title = a, image_id = im,
                    date_display = d, medium_display = m, place_of_origin = pl,
                    dimensions = di, note' = n\<rparr>)
      | _ \<Rightarrow> Inl [Invalid_type []])"

definition ArtworkSchema_parse :: "json \<Rightarrow> Artwork parsed" where
  "ArtworkSchema_parse v =
     (case v of
        JObj kvs \<Rightarrow>
          (case z_both (z_number [''id''] (field v ''id''))
               (z_both (z_default z_string Unbekannter_Titel [''title''] (field v ''title''))
               (z_both (z_default (z_nullable z_string) (Some Unbekannter_Kuenstler)
                          [''artist_title''] (field v ''artist_title''))
               (z_both (z_default (z_nullable z_string) None [''image_id'']
                          (field v ''image_id''))
               (z_both (z_optional (z_nullable z_string) [''date_display'']
                          (field v ''date_display''))
               (z_both (z_optional (z_nullable z_string) [''medium_display'']
                          (field v ''medium_display''))
               (z_both (z_optional (z_nullable z_string) [''place_of_origin'']
                          (field v ''place_of_origin''))
                       (z_optional (z_nullable z_string) [''dimensions'']
                          (field v ''dimensions'')))))))) of
             Inl e \<Rightarrow> Inl e
           | Inr (i, t, a, im, d, m, pl, di) \<Rightarrow>
               Inr \<lparr>id' = i, title = t, artist_title = a, image_id = im,
                    date_display = d, medium_display = m, place_of_origin = pl,
                    dimensions = di\<rparr>)
      | _ \<Rightarrow> Inl [Invalid_type []])"

section \<open>The gallery store (galleryStorage.ts)\<close>

subsection \<open>Local storage and JSON text\<close>

text \<open>
  The text kept in a local storage entry is read only through \<^verbatim>\<open>JSON.parse\<close>, so it
  is written as what \<^verbatim>\<open>JSON.parse\<close> makes of it: the empty string (which the code
  tests first, it is falsy), a text on which \<^verbatim>\<open>JSON.parse\<close> throws, or a text that
  parses to a JSON value. \<^verbatim>\<open>setItem\<close> throws when the quota is exceeded.
\<close>

datatype raw_text = EmptyText | BadText | JsonText json

record storage =
  entries :: "string \<rightharpoonup> raw_text"
  quota_exceeded :: bool

datatype error =
    ZodError "zod_issue list"
  | SyntaxError
  | QuotaExceededError
  | Error string

definition GALLERY_STORAGE_KEY :: string where
  "GALLERY_STORAGE_KEY = ''aic_gallery''"

definition getItem :: "string \<Rightarrow> storage \<Rightarrow> raw_text option \<times> storage" where
  "getItem k s = (entries s k, s)"

definition setItem :: "string \<Rightarrow> raw_text \<Rightarrow> storage \<Rightarrow> (error + unit) \<times> storage" where
  "setItem k t s =
     (if quota_exceeded s then (Inl QuotaExceededError, s)
      else (Inr (), s\<lparr>entries := (entries s)(k \<mapsto> t)\<rparr>))"

definition JSON_parse :: "raw_text \<Rightarrow> error + json" where
  "JSON_parse t = (case t of JsonText v \<Rightarrow> Inr v | _ \<Rightarrow> Inl SyntaxError)"

text \<open>
  A \<^verbatim>\<open>SavedArtwork\<close> object as a JSON value: what \<^verbatim>\<open>SavedArtworkSchema.parse\<close>
  reads when it is given the object, and what \<^verbatim>\<open>JSON.parse\<close> reads back from the
  text that \<^verbatim>\<open>JSON.stringify\<close> writes for it. A property whose value is
  \<^verbatim>\<open>undefined\<close> is not there.
\<close>

definition nullable_json :: "string option \<Rightarrow> json" where
  "nullable_json v = (case v of None \<Rightarrow> JNull | Some x \<Rightarrow> JStr x)"

definition optional_property :: "string \<Rightarrow> string option optional \<Rightarrow> (string \<times> json) list" where
  "optional_property k v = (case v of Undefined \<Rightarrow> [] | Present x \<Rightarrow> [(k, nullable_json x)])"

definition object_of :: "SavedArtwork \<Rightarrow> json" where
  "object_of a =
     JObj ([(''id'', JNum (id' a)),
            (''title'', JStr (title a)),
            (''artist_title'', nullable_json (artist_title a)),
            (''image_id'', nullable_json (image_id a))]
           @ optional_property ''date_display'' (date_display a)
           @ optional_property ''medium_display'' (medium_display a)
           @ optional_property ''place_of_origin'' (place_of_origin a)
           @ optional_property ''dimensions'' (dimensions a)
           @ [(''note'', JStr (note' a))])"

definition JSON_stringify :: "SavedArtwork list \<Rightarrow> raw_text" where
  "JSON_stringify gallery = JsonText (JArr (map object_of gallery))"

subsection \<open>loadGallery, saveGallery\<close>

text \<open>
  Each function with a \<^verbatim>\<open>try\<close> block is written twice: \<open>f_try\<close> is the block, with
  what it throws as \<open>Inl\<close>, and \<open>f\<close> adds the \<^verbatim>\<open>catch\<close>. What the code prints on
  the console is left out.
\<close>

definition validate_or_null :: "json \<Rightarrow> SavedArtwork option" where
  "validate_or_null item =
     (case SavedArtworkSchema_parse item of Inr a \<Rightarrow> Some a | Inl e \<Rightarrow> None)"

definition isArray :: "json \<Rightarrow> bool" where
  "isArray v = (case v of JArr xs \<Rightarrow> True | _ \<Rightarrow> False)"

fun elements :: "json \<Rightarrow> json list" where
  "elements (JArr xs) = xs"
| "elements _ = []"

definition loadGallery_try :: "storage \<Rightarrow> (error + SavedArtwork list) \<times> storage" where
  "loadGallery_try s =
     (case getItem GALLERY_STORAGE_KEY s of
        (None, s1) \<Rightarrow> (Inr [], s1)
      | (Some EmptyText, s1) \<Rightarrow> (Inr [], s1)
      | (Some storedData, s1) \<Rightarrow>
          (case JSON_parse storedData of
             Inl e \<Rightarrow> (Inl e, s1)
           | Inr parsedData \<Rightarrow>
               if \<not> isArray parsedData then (Inr [], s1)
               else
                 (Inr (map the (filter (\<lambda>x. x \<noteq> None)
                                  (map validate_or_null (elements parsedData)))), s1)))"

definition loadGallery :: "storage \<Rightarrow> SavedArtwork list \<times> storage" where
  "loadGallery s =
     (case loadGallery_try s of
        (Inl e, s1) \<Rightarrow> ([], s1)
      | (Inr validatedArtworks, s1) \<Rightarrow> (validatedArtworks, s1))"

definition saveGallery :: "SavedArtwork list \<Rightarrow> storage \<Rightarrow> (error + unit) \<times> storage" where
  "saveGallery gallery s =
     (case setItem GALLERY_STORAGE_KEY (JSON_stringify gallery) s of
        (Inl e, s1) \<Rightarrow> (Inl (Error ''Galerie konnte nicht gespeichert werden''), s1)
      | (Inr u, s1) \<Rightarrow> (Inr (), s1))"

subsection \<open>addToGallery\<close>

definition addToGallery_try :: "Artwork \<Rightarrow> storage \<Rightarrow> (error + bool) \<times> storage" where
  "addToGallery_try artwork s =
     (case loadGallery s of
        (gallery, s1) \<Rightarrow>
          if list_ex (\<lambda>item. id' item = id' artwork) gallery then (Inr False, s1)
          else
            (let savedArtwork =
                   \<lparr>id' = id' artwork, title = title artwork,
                    artist_title = artist_title artwork, image_id = image_id artwork,
                    date_display = date_display artwork,
                    medium_display = medium_display artwork,
                    place_of_origin = place_of_origin artwork,
                    dimensions = dimensions artwork, note' = ''''\<rparr>
             in case SavedArtworkSchema_parse (object_of savedArtwork) of
                  Inl e \<Rightarrow> (Inl (ZodError e), s1)
                | Inr validated \<Rightarrow>
                    (case saveGallery (gallery @ [validated]) s1 of
                       (Inl e, s2) \<Rightarrow> (Inl e, s2)
                     | (Inr u, s2) \<Rightarrow> (Inr True, s2))))"

definition addToGallery :: "Artwork \<Rightarrow> storage \<Rightarrow> (error + bool) \<times> storage" where
  "addToGallery artwork s =
     (case addToGallery_try artwork s of
        (Inl e, s1) \<Rightarrow>
          (Inl (Error (''Kunstwerk konnte nicht zur Galerie hinzugef'' @ [CHR 0xFC]
                       @ ''gt werden'')), s1)
      | (Inr b, s1) \<Rightarrow> (Inr b, s1))"

subsection \<open>updateNote\<close>

text \<open>\<^verbatim>\<open>findIndex\<close> answers the first index that satisfies the test, or \<open>-1\<close>.\<close>

fun findIndex :: "('a \<Rightarrow> bool) \<Rightarrow> 'a list \<Rightarrow> int" where
  "findIndex P [] = - 1"
| "findIndex P (x # xs) =
     (if P x then 0 else (let i = findIndex P xs in if i = - 1 then - 1 else i + 1))"

definition updateNote_try :: "rat \<Rightarrow> string \<Rightarrow> storage \<Rightarrow> (error + bool) \<times> storage" where
  "updateNote_try artworkId' note s =
     (if length note > 500 then (Inl (Error ''Notiz darf maximal 500 Zeichen lang sein''), s)
      else
        (case loadGallery s of
           (gallery, s1) \<Rightarrow>
             (let artworkIndex = findIndex (\<lambda>item. id' item = artworkId') gallery
              in if artworkIndex = - 1 then (Inr False, s1)
                 else
                   (let i = nat artworkIndex;
                        gallery1 = gallery[i := (gallery ! i)\<lparr>note' := note\<rparr>]
                    in case SavedArtworkSchema_parse (object_of (gallery1 ! i)) of
                         Inl e \<Rightarrow> (Inl (ZodError e), s1)
                       | Inr validated \<Rightarrow>
                           (case saveGallery (gallery1[i := validated]) s1 of
                              (Inl e, s2) \<Rightarrow> (Inl e, s2)
                            | (Inr u, s2) \<Rightarrow> (Inr True, s2))))))"

definition updateNote :: "rat \<Rightarrow> string \<Rightarrow> storage \<Rightarrow> (error + bool) \<times> storage" where
  "updateNote artworkId' note s =
     (case updateNote_try artworkId' note s of
        (Inl e, s1) \<Rightarrow> (Inl (Error ''Notiz konnte nicht aktualisiert werden''), s1)
      | (Inr b, s1) \<Rightarrow> (Inr b, s1))"

subsection \<open>removeFromGallery\<close>

definition removeFromGallery_try :: "rat \<Rightarrow> storage \<Rightarrow> (error + bool) \<times> storage" where
  "removeFromGallery_try artworkId' s =
     (case loadGallery s of
        (gallery, s1) \<Rightarrow>
          if \<not> list_ex (\<lambda>item. id' item = artworkId') gallery then (Inr False, s1)
          else
            (let updatedGallery = filter (\<lambda>item. id' item \<noteq> artworkId') gallery
             in case saveGallery updatedGallery s1 of
                  (Inl e, s2) \<Rightarrow> (Inl e, s2)
                | (Inr u, s2) \<Rightarrow> (Inr True, s2)))"

definition removeFromGallery :: "rat \<Rightarrow> storage \<Rightarrow> (error + bool) \<times> storage" where
  "removeFromGallery artworkId' s =
     (case removeFromGallery_try artworkId' s of
        (Inl e, s1) \<Rightarrow>
          (Inl (Error ''Kunstwerk konnte nicht aus der Galerie entfernt werden''), s1)
      | (Inr b, s1) \<Rightarrow> (Inr b, s1))"

section \<open>Predicates used to state the properties\<close>

text \<open>What a schema finds in a field: a finite number; something that is there but is
  not a string; something that is there but is neither a string nor \<^verbatim>\<open>null\<close>.\<close>

definition is_number :: "json option \<Rightarrow> bool" where
  "is_number v = (case v of Some (JNum n) \<Rightarrow> True | _ \<Rightarrow> False)"

definition present_not_string :: "json option \<Rightarrow> bool" where
  "present_not_string v = (case v of None \<Rightarrow> False | Some (JStr s) \<Rightarrow> False | Some _ \<Rightarrow> True)"

definition present_not_string_or_null :: "json option \<Rightarrow> bool" where
  "present_not_string_or_null v =
     (case v of None \<Rightarrow> False | Some JNull \<Rightarrow> False | Some (JStr s) \<Rightarrow> False | Some _ \<Rightarrow> True)"

text \<open>The records that \<^verbatim>\<open>loadGallery\<close> keeps of the elements of a stored array.\<close>

definition accepted :: "json list \<Rightarrow> SavedArtwork list" where
  "accepted vs =
     concat (map (\<lambda>v. case SavedArtworkSchema_parse v of Inl e \<Rightarrow> [] | Inr a \<Rightarrow> [a]) vs)"

subsection \<open>A sequence of calls\<close>

text \<open>\<^verbatim>\<open>addToGallery\<close> called for each artwork of a list in turn; the caller goes on
  whatever a call answers or throws.\<close>

fun addToGallery_calls :: "Artwork list \<Rightarrow> storage \<Rightarrow> storage" where
  "addToGallery_calls [] s = s"
| "addToGallery_calls (artwork # artworks) s =
     addToGallery_calls artworks (snd (addToGallery artwork s))"

subsection \<open>Example values\<close>

text \<open>
  The artwork of the end-to-end scenario, the storage before anything is saved and after
  that artwork is saved, a stored array whose second record has no \<^verbatim>\<open>id\<close>, a
  stored record and the saved artwork it is read as, a gallery of three saved artworks,
  and a stored array in which two records have the same identifier.
\<close>

definition starry_night :: Artwork where
  "starry_night =
     \<lparr>id' = 1, title = ''Starry Night'', artist_title = Some ''Van Gogh'', image_id = None,
      date_display = Undefined, medium_display = Undefined, place_of_origin = Undefined,
      dimensions = Undefined\<rparr>"

definition empty_storage :: storage where
  "empty_storage = \<lparr>entries = Map.empty, quota_exceeded = False\<rparr>"

definition one_saved :: storage where
  "one_saved = snd (addToGallery starry_night empty_storage)"

definition corrupt_storage :: storage where
  "corrupt_storage =
     \<lparr>entries = [GALLERY_STORAGE_KEY \<mapsto> JsonText (JArr
        [JObj [(''id'', JNum 1), (''title'', JStr ''Starry Night''),
               (''artist_title'', JStr ''Van Gogh''), (''image_id'', JNull)],
         JObj [(''title'', JStr ''Water Lilies''), (''artist_title'', JStr ''Monet''),
               (''image_id'', JNull), (''note'', JStr ''no id'')]])],
      quota_exceeded = False\<rparr>"

definition stored_record :: "rat \<Rightarrow> string \<Rightarrow> json" where
  "stored_record i n =
     JObj [(''id'', JNum i), (''title'', JStr ''Starry Night''),
           (''artist_title'', JStr ''Van Gogh''), (''image_id'', JNull),
           (''note'', JStr n)]"

definition saved_record :: "rat \<Rightarrow> string \<Rightarrow> SavedArtwork" where
  "saved_record i n =
     \<lparr>id' = i, title = ''Starry Night'', artist_title = Some ''Van Gogh'', image_id = None,
      date_display = Undefined, medium_display = Undefined, place_of_origin = Undefined,
      dimensions = Undefined, note' = n\<rparr>"

definition three_saved :: storage where
  "three_saved =
     \<lparr>entries = [GALLERY_STORAGE_KEY \<mapsto> JSON_stringify
        [saved_record 2 ''other'', saved_record 1 ''first'', saved_record 3 ''another'']],
      quota_exceeded = False\<rparr>"

definition duplicate_storage :: storage where
  "duplicate_storage =
     \<lparr>entries = [GALLERY_STORAGE_KEY \<mapsto> JsonText (JArr
        [stored_record 2 ''other'', stored_record 1 ''first'',
         stored_record 3 ''another'', stored_record 1 ''second''])],
      quota_exceeded = False\<rparr>"

section \<open>Facts about the schemas\<close>

lemma z_both_Inr_iff: "z_both a b = Inr p \<longleftrightarrow> (\<exists>x y. a = Inr x \<and> b = Inr y \<and> p = (x, y))"
  by (auto simp: z_both_def split: sum.splits)

lemma z_both_Inr [simp]: "z_both (Inr x) (Inr y) = Inr (x, y)"
  by (simp add: z_both_def)

lemma isl_z_both: "isl (z_both a b) \<longleftrightarrow> isl a \<or> isl b"
  by (auto simp: z_both_def split: sum.splits)

lemma map_of_optional_property:
  "map_of (optional_property k v @ rest) k' =
     (if k' = k then (case v of Undefined \<Rightarrow> map_of rest k' | Present x \<Rightarrow> Some (nullable_json x))
      else map_of rest k')"
  by (simp add: optional_property_def split: optional.splits)

lemma z_nullable_string_json [simp]:
  "z_nullable z_string p (Some (nullable_json x)) = Inr x"
  by (simp add: z_nullable_def z_string_def nullable_json_def split: option.splits)

lemma z_optional_property:
  "z_optional (z_nullable z_string) p (case v of Undefined \<Rightarrow> None | Present x \<Rightarrow> Some (nullable_json x)) = Inr v"
  by (simp add: z_optional_def split: optional.splits)

lemma field_object_of:
  "field (object_of a) ''id'' = Some (JNum (id' a))"
  "field (object_of a) ''title'' = Some (JStr (title a))"
  "field (object_of a) ''artist_title'' = Some (nullable_json (artist_title a))"
  "field (object_of a) ''image_id'' = Some (nullable_json (image_id a))"
  "field (object_of a) ''date_display'' =
     (case date_display a of Undefined \<Rightarrow> None | Present x \<Rightarrow> Some (nullable_json x))"
  "field (object_of a) ''medium_display'' =
     (case medium_display a of Undefined \<Rightarrow> None | Present x \<Rightarrow> Some (nullable_json x))"
  "field (object_of a) ''place_of_origin'' =
     (case place_of_origin a of Undefined \<Rightarrow> None | Present x \<Rightarrow> Some (nullable_json x))"
  "field (object_of a) ''dimensions'' =
     (case dimensions a of Undefined \<Rightarrow> None | Present x \<Rightarrow> Some (nullable_json x))"
  "field (object_of a) ''note'' = Some (JStr (note' a))"
  by (simp_all add: object_of_def map_of_optional_property del: map_of_append
      split: optional.splits)

lemma parse_object_of: "SavedArtworkSchema_parse (object_of a) = Inr a"
proof -
  obtain kvs where "object_of a = JObj kvs"
    by (simp add: object_of_def)
  then show ?thesis
    unfolding SavedArtworkSchema_parse_def field_object_of
    by (simp add: z_optional_property z_number_def z_string_def z_default_def)
qed

lemma validate_object_of: "validate_or_null (object_of a) = Some a"
  by (simp add: validate_or_null_def parse_object_of)

lemma validated_objects: "map the (filter (\<lambda>x. x \<noteq> None) (map validate_or_null (map object_of g))) = g"
  by (induction g) (simp_all add: validate_object_of)

lemma isl_z_number: "isl (z_number p v) \<longleftrightarrow> \<not> is_number v"
  by (simp add: z_number_def is_number_def split: option.splits json.splits)

lemma isl_z_default_string: "isl (z_default z_string d p v) \<longleftrightarrow> present_not_string v"
  by (simp add: z_default_def z_string_def present_not_string_def
      split: option.splits json.splits)

lemma isl_z_default_nullable:
  "isl (z_default (z_nullable z_string) d p v) \<longleftrightarrow> present_not_string_or_null v"
  by (simp add: z_default_def z_nullable_def z_string_def present_not_string_or_null_def
      split: option.splits json.splits)

lemma isl_z_optional_nullable:
  "isl (z_optional (z_nullable z_string) p v) \<longleftrightarrow> present_not_string_or_null v"
  by (simp add: z_optional_def z_nullable_def z_string_def present_not_string_or_null_def
      split: option.splits json.splits)

lemma isl_ArtworkSchema_parse_obj:
  "isl (ArtworkSchema_parse (JObj kvs)) \<longleftrightarrow>
     \<not> is_number (map_of kvs ''id'') \<or>
     present_not_string (map_of kvs ''title'') \<or>
     present_not_string_or_null (map_of kvs ''artist_title'') \<or>
     present_not_string_or_null (map_of kvs ''image_id'') \<or>
     present_not_string_or_null (map_of kvs ''date_display'') \<or>
     present_not_string_or_null (map_of kvs ''medium_display'') \<or>
     present_not_string_or_null (map_of kvs ''place_of_origin'') \<or>
     present_not_string_or_null (map_of kvs ''dimensions'')"
proof -
  have "isl (ArtworkSchema_parse (JObj kvs)) \<longleftrightarrow>
    isl (z_both (z_number [''id''] (map_of kvs ''id''))
               (z_both (z_default z_string Unbekannter_Titel [''title''] (map_of kvs ''title''))
               (z_both (z_default (z_nullable z_string) (Some Unbekannter_Kuenstler)
                          [''artist_title''] (map_of kvs ''artist_title''))
               (z_both (z_default (z_nullable z_string) None [''image_id'']
                          (map_of kvs ''image_id''))
               (z_both (z_optional (z_nullable z_string) [''date_display'']
                          (map_of kvs ''date_display''))
               (z_both (z_optional (z_nullable z_string) [''medium_display'']
                          (map_of kvs ''medium_display''))
               (z_both (z_optional (z_nullable z_string) [''place_of_origin'']
                          (map_of kvs ''place_of_origin''))
                       (z_optional (z_nullable z_string) [''dimensions'']
                          (map_of kvs ''dimensions'')))))))))"
    by (simp add: ArtworkSchema_parse_def split: sum.splits)
  then show ?thesis
    unfolding isl_z_both isl_z_number isl_z_default_string isl_z_default_nullable
      isl_z_optional_nullable .
qed

lemma ArtworkSchema_parse_Inr:
  assumes "ArtworkSchema_parse v = Inr a"
  shows "z_number [''id''] (field v ''id'') = Inr (id' a)"
    and "z_default z_string Unbekannter_Titel [''title''] (field v ''title'') = Inr (title a)"
    and "z_default (z_nullable z_string) (Some Unbekannter_Kuenstler) [''artist_title'']
           (field v ''artist_title'') = Inr (artist_title a)"
    and "z_default (z_nullable z_string) None [''image_id''] (field v ''image_id'')
           = Inr (image_id a)"
  using assms
  by (cases v; auto simp: ArtworkSchema_parse_def z_both_Inr_iff split: sum.splits)+

lemma SavedArtworkSchema_parse_obj:
  "SavedArtworkSchema_parse (JObj kvs) = Inr a \<longleftrightarrow>
     z_number [''id''] (map_of kvs ''id'') = Inr (id' a) \<and>
     z_string [''title''] (map_of kvs ''title'') = Inr (title a) \<and>
     z_nullable z_string [''artist_title''] (map_of kvs ''artist_title'') = Inr (artist_title a) \<and>
     z_nullable z_string [''image_id''] (map_of kvs ''image_id'') = Inr (image_id a) \<and>
     z_optional (z_nullable z_string) [''date_display''] (map_of kvs ''date_display'')
       = Inr (date_display a) \<and>
     z_optional (z_nullable z_string) [''medium_display''] (map_of kvs ''medium_display'')
       = Inr (medium_display a) \<and>
     z_optional (z_nullable z_string) [''place_of_origin''] (map_of kvs ''place_of_origin'')
       = Inr (place_of_origin a) \<and>
     z_optional (z_nullable z_string) [''dimensions''] (map_of kvs ''dimensions'')
       = Inr (dimensions a) \<and>
     z_default z_string '''' [''note''] (map_of kvs ''note'') = Inr (note' a)"
  by (cases a) (auto simp: SavedArtworkSchema_parse_def z_both_Inr_iff split: sum.splits)

lemma missing_id_rejected: "field v ''id'' = None \<Longrightarrow> isl (SavedArtworkSchema_parse v)"
proof (cases v)
  case (JObj kvs)
  assume "field v ''id'' = None"
  with JObj have "\<And>a. SavedArtworkSchema_parse v \<noteq> Inr a"
    by (simp add: SavedArtworkSchema_parse_obj z_number_def)
  then show ?thesis
    by (cases "SavedArtworkSchema_parse v") auto
qed (simp_all add: SavedArtworkSchema_parse_def)

section \<open>Facts about the store\<close>

lemma loadGallery_snd: "snd (loadGallery s) = s"
  by (simp add: loadGallery_def loadGallery_try_def getItem_def
      split: option.splits raw_text.splits sum.splits)

lemma loadGallery_pair: "loadGallery s = (fst (loadGallery s), s)"
  by (metis loadGallery_snd prod.collapse)

lemma saveGallery_eq:
  "saveGallery g s =
     (if quota_exceeded s then (Inl (Error ''Galerie konnte nicht gespeichert werden''), s)
      else (Inr (), s\<lparr>entries := (entries s)(GALLERY_STORAGE_KEY \<mapsto> JSON_stringify g)\<rparr>))"
  by (simp add: saveGallery_def setItem_def)

lemma validated_concat:
  "map the (filter (\<lambda>x. x \<noteq> None) (map validate_or_null xs)) =
     concat (map (\<lambda>x. case SavedArtworkSchema_parse x of Inl e \<Rightarrow> [] | Inr a \<Rightarrow> [a]) xs)"
  by (induction xs) (simp_all add: validate_or_null_def split: sum.splits)

lemma loadGallery_try_eq:
  "loadGallery_try s =
     (case entries s GALLERY_STORAGE_KEY of
        None \<Rightarrow> (Inr [], s)
      | Some EmptyText \<Rightarrow> (Inr [], s)
      | Some BadText \<Rightarrow> (Inl SyntaxError, s)
      | Some (JsonText v) \<Rightarrow>
          (case v of
             JArr xs \<Rightarrow>
               (Inr (concat (map (\<lambda>x. case SavedArtworkSchema_parse x of
                                        Inl e \<Rightarrow> [] | Inr a \<Rightarrow> [a]) xs)), s)
           | _ \<Rightarrow> (Inr [], s)))"
  by (simp add: loadGallery_try_def getItem_def JSON_parse_def validated_concat isArray_def
      del: not_None_eq split: option.splits raw_text.splits json.splits)

lemma loadGallery_stringify:
  "entries s GALLERY_STORAGE_KEY = Some (JSON_stringify g) \<Longrightarrow> fst (loadGallery s) = g"
  by (simp add: loadGallery_def loadGallery_try_def getItem_def JSON_stringify_def
      JSON_parse_def validated_objects isArray_def del: map_map not_None_eq)

lemma loadGallery_saved:
  "fst (loadGallery (s\<lparr>entries := (entries s)(GALLERY_STORAGE_KEY \<mapsto> JSON_stringify g)\<rparr>)) = g"
  by (rule loadGallery_stringify) simp

lemma addToGallery_eq:
  "addToGallery a s =
     (if list_ex (\<lambda>item. id' item = id' a) (fst (loadGallery s)) then (Inr False, s)
      else if quota_exceeded s
      then (Inl (Error (''Kunstwerk konnte nicht zur Galerie hinzugef'' @ [CHR 0xFC]
                        @ ''gt werden'')), s)
      else (Inr True,
            s\<lparr>entries := (entries s)(GALLERY_STORAGE_KEY \<mapsto>
                JSON_stringify (fst (loadGallery s) @
                  [\<lparr>id' = id' a, title = title a, artist_title = artist_title a,
                    image_id = image_id a, date_display = date_display a,
                    medium_display = medium_display a, place_of_origin = place_of_origin a,
                    dimensions = dimensions a, note' = ''''\<rparr>]))\<rparr>))"
  apply (subst addToGallery_def)
  apply (subst addToGallery_try_def)
  apply (subst loadGallery_pair)
  apply (simp add: parse_object_of saveGallery_eq Let_def)
  done

lemma findIndex_ge: "- 1 \<le> findIndex P xs"
  by (induction xs) (auto simp: Let_def)

lemma findIndex_none: "findIndex P xs = - 1 \<longleftrightarrow> \<not> list_ex P xs"
proof (induction xs)
  case Nil
  then show ?case by simp
next
  case (Cons x xs)
  have "- 1 \<le> findIndex P xs" by (rule findIndex_ge)
  then have "findIndex P xs + 1 \<noteq> - 1" by arith
  with Cons show ?case by (simp add: Let_def)
qed

lemma findIndex_nonneg: "findIndex P xs \<noteq> - 1 \<Longrightarrow> 0 \<le> findIndex P xs"
  using findIndex_ge [of P xs] by arith

lemma findIndex_some:
  "list_ex P xs \<Longrightarrow>
     nat (findIndex P xs) < length xs \<and> P (xs ! nat (findIndex P xs)) \<and>
     (\<forall>j < nat (findIndex P xs). \<not> P (xs ! j))"
proof (induction xs)
  case Nil
  then show ?case by simp
next
  case (Cons x xs)
  show ?case
  proof (cases "P x")
    case True
    then show ?thesis by simp
  next
    case False
    with Cons.prems have ex: "list_ex P xs" by simp
    then have ne: "findIndex P xs \<noteq> - 1" by (simp add: findIndex_none)
    then have nn: "0 \<le> findIndex P xs" by (rule findIndex_nonneg)
    then have n: "nat (findIndex P xs + 1) = Suc (nat (findIndex P xs))" by simp
    from Cons.IH [OF ex] False ne show ?thesis
      by (auto simp: Let_def n less_Suc_eq_0_disj)
  qed
qed

lemma updateNote_eq:
  "updateNote i n s =
     (if 500 < length n then (Inl (Error ''Notiz konnte nicht aktualisiert werden''), s)
      else if \<not> list_ex (\<lambda>item. id' item = i) (fst (loadGallery s)) then (Inr False, s)
      else if quota_exceeded s then (Inl (Error ''Notiz konnte nicht aktualisiert werden''), s)
      else (Inr True,
            s\<lparr>entries := (entries s)(GALLERY_STORAGE_KEY \<mapsto>
                JSON_stringify ((fst (loadGallery s))
                  [nat (findIndex (\<lambda>item. id' item = i) (fst (loadGallery s))) :=
                     (fst (loadGallery s) ! nat (findIndex (\<lambda>item. id' item = i)
                        (fst (loadGallery s))))\<lparr>note' := n\<rparr>]))\<rparr>))"
  apply (subst updateNote_def)
  apply (subst updateNote_try_def)
  apply (subst loadGallery_pair)
  apply (simp add: parse_object_of saveGallery_eq Let_def findIndex_none)
  done

lemma removeFromGallery_eq:
  "removeFromGallery i s =
     (if \<not> list_ex (\<lambda>item. id' item = i) (fst (loadGallery s)) then (Inr False, s)
      else if quota_exceeded s
      then (Inl (Error ''Kunstwerk konnte nicht aus der Galerie entfernt werden''), s)
      else (Inr True,
            s\<lparr>entries := (entries s)(GALLERY_STORAGE_KEY \<mapsto>
                JSON_stringify (filter (\<lambda>item. id' item \<noteq> i) (fst (loadGallery s))))\<rparr>))"
  apply (subst removeFromGallery_def)
  apply (subst removeFromGallery_try_def)
  apply (subst loadGallery_pair)
  apply (simp add: saveGallery_eq Let_def)
  done

lemma addToGallery_distinct:
  "distinct (map id' (fst (loadGallery s))) \<Longrightarrow>
   distinct (map id' (fst (loadGallery (snd (addToGallery a s)))))"
  by (auto simp: addToGallery_eq loadGallery_saved list_ex_iff)

lemma findIndex_update:
  "list_ex P xs \<Longrightarrow> P y \<Longrightarrow>
     findIndex P (xs[nat (findIndex P xs) := y]) = findIndex P xs"
proof (induction xs)
  case Nil
  then show ?case by simp
next
  case (Cons x xs)
  show ?case
  proof (cases "P x")
    case True
    with Cons.prems show ?thesis by simp
  next
    case False
    with Cons.prems have ex: "list_ex P xs" by simp
    then have ne: "findIndex P xs \<noteq> - 1" by (simp add: findIndex_none)
    then have nn: "0 \<le> findIndex P xs" by (rule findIndex_nonneg)
    then have n: "nat (findIndex P xs + 1) = Suc (nat (findIndex P xs))" by simp
    from Cons.IH [OF ex Cons.prems(2)] False ne show ?thesis
      by (simp add: Let_def n)
  qed
qed

lemma find_update:
  "list_ex P xs \<Longrightarrow> P y \<Longrightarrow> find P (xs[nat (findIndex P xs) := y]) = Some y"
proof (induction xs)
  case Nil
  then show ?case by simp
next
  case (Cons x xs)
  show ?case
  proof (cases "P x")
    case True
    with Cons.prems show ?thesis by simp
  next
    case False
    with Cons.prems have ex: "list_ex P xs" by simp
    then have ne: "findIndex P xs \<noteq> - 1" by (simp add: findIndex_none)
    then have nn: "0 \<le> findIndex P xs" by (rule findIndex_nonneg)
    then have n: "nat (findIndex P xs + 1) = Suc (nat (findIndex P xs))" by simp
    from Cons.IH [OF ex Cons.prems(2)] False ne show ?thesis
      by (simp add: Let_def n)
  qed
qed

lemma list_ex_update:
  "list_ex P xs \<Longrightarrow> P y \<Longrightarrow> list_ex P (xs[nat (findIndex P xs) := y])"
proof -
  assume ex: "list_ex P xs" and y: "P y"
  from findIndex_some [OF ex] have "nat (findIndex P xs) < length xs" by simp
  then have "y \<in> set (xs[nat (findIndex P xs) := y])" by (rule set_update_memI)
  with y show ?thesis by (auto simp: list_ex_iff)
qed

lemma updateNote_gallery:
  assumes "list_ex (\<lambda>item. id' item = i) (fst (loadGallery s))"
    and "length n \<le> 500" and "\<not> quota_exceeded s"
  shows "fst (updateNote i n s) = Inr True"
    and "fst (loadGallery (snd (updateNote i n s))) =
           (fst (loadGallery s))
             [nat (findIndex (\<lambda>item. id' item = i) (fst (loadGallery s))) :=
                (fst (loadGallery s) ! nat (findIndex (\<lambda>item. id' item = i)
                   (fst (loadGallery s))))\<lparr>note' := n\<rparr>]"
    and "quota_exceeded (snd (updateNote i n s)) = quota_exceeded s"
  using assms by (simp_all add: updateNote_eq loadGallery_saved)

lemma loadGallery_empty_storage: "fst (loadGallery empty_storage) = []"
  by (simp add: loadGallery_def loadGallery_try_eq empty_storage_def)

lemma one_saved_eq:
  "one_saved = \<lparr>entries = [GALLERY_STORAGE_KEY \<mapsto> JSON_stringify
       [\<lparr>id' = 1, title = ''Starry Night'', artist_title = Some ''Van Gogh'', image_id = None,
         date_display = Undefined, medium_display = Undefined, place_of_origin = Undefined,
         dimensions = Undefined, note' = ''''\<rparr>]], quota_exceeded = False\<rparr>"
  by (simp add: one_saved_def addToGallery_eq loadGallery_empty_storage)
    (simp add: empty_storage_def starry_night_def)

lemma loadGallery_one_saved:
  "fst (loadGallery one_saved) =
     [\<lparr>id' = 1, title = ''Starry Night'', artist_title = Some ''Van Gogh'', image_id = None,
       date_display = Undefined, medium_display = Undefined, place_of_origin = Undefined,
       dimensions = Undefined, note' = ''''\<rparr>]"
  by (rule loadGallery_stringify) (simp add: one_saved_eq)

lemma accepted_simps:
  "accepted [] = []"
  "accepted (v # vs) =
     (case SavedArtworkSchema_parse v of Inl e \<Rightarrow> [] | Inr a \<Rightarrow> [a]) @ accepted vs"
  "accepted (us @ vs) = accepted us @ accepted vs"
  by (simp_all add: accepted_def)

lemma loadGallery_array:
  "entries s GALLERY_STORAGE_KEY = Some (JsonText (JArr vs)) \<Longrightarrow>
     fst (loadGallery s) = accepted vs"
  by (simp add: loadGallery_def loadGallery_try_eq accepted_def)

lemma parse_stored_record:
  "SavedArtworkSchema_parse (stored_record i n) = Inr (saved_record i n)"
  by (simp add: stored_record_def saved_record_def SavedArtworkSchema_parse_def
      z_number_def z_string_def z_nullable_def z_optional_def z_default_def)

lemma findIndex_first:
  "P x \<Longrightarrow> \<forall>y\<in>set pre. \<not> P y \<Longrightarrow> findIndex P (pre @ x # post) = int (length pre)"
  by (induction pre) (simp_all add: Let_def)

lemma first_match_exists:
  "list_ex P xs \<Longrightarrow> \<exists>pre x post. xs = pre @ x # post \<and> P x \<and> (\<forall>y\<in>set pre. \<not> P y)"
  using split_list_first_prop [of xs P] by (auto simp: list_ex_iff)

lemma updateNote_first:
  assumes "fst (loadGallery s) = pre @ x # post"
    and "id' x = i" and "\<forall>y\<in>set pre. id' y \<noteq> i"
    and "length n \<le> 500" and "\<not> quota_exceeded s"
  shows "updateNote i n s =
           (Inr True,
            s\<lparr>entries := (entries s)(GALLERY_STORAGE_KEY \<mapsto>
                JSON_stringify (pre @ x\<lparr>note' := n\<rparr> # post))\<rparr>)"
proof -
  have k: "findIndex (\<lambda>item. id' item = i) (pre @ x # post) = int (length pre)"
    using assms(2,3) by (intro findIndex_first) simp_all
  have ex: "list_ex (\<lambda>item. id' item = i) (pre @ x # post)"
    using assms(2) by simp
  show ?thesis
    using assms(4,5) ex by (simp add: updateNote_eq assms(1) k)
qed

lemma loadGallery_three_saved:
  "fst (loadGallery three_saved) =
     [saved_record 2 ''other''] @ saved_record 1 ''first'' # [saved_record 3 ''another'']"
  by (rule loadGallery_stringify) (simp add: three_saved_def)

lemma accepted_stored_record:
  "accepted [stored_record i n] = [saved_record i n]"
  by (simp add: accepted_def parse_stored_record)

section \<open>The properties\<close>

subsection \<open>C1: identifiers stay unique\<close>

text \<open>
  C1. Whatever artworks \<^verbatim>\<open>addToGallery\<close> is called with, one call after the other,
  a gallery that loads without two records of the same identifier still loads without
  two such records afterwards. When the storage takes the write and the identifier of
  \<open>a\<close> is not in the gallery, adding \<open>a\<close> answers \<^verbatim>\<open>true\<close>, adding \<open>b\<close> with the
  same identifier right after answers \<^verbatim>\<open>false\<close> and leaves the storage as it was,
  and the gallery is one record longer than before the two calls.
\<close>

theorem addToGallery_unique:
  "(distinct (map id' (fst (loadGallery s))) \<longrightarrow>
      distinct (map id' (fst (loadGallery (addToGallery_calls artworks s))))) \<and>
   (\<not> quota_exceeded s \<and> \<not> list_ex (\<lambda>item. id' item = id' a) (fst (loadGallery s)) \<and>
    id' b = id' a \<longrightarrow>
      fst (addToGallery a s) = Inr True \<and>
      addToGallery b (snd (addToGallery a s)) = (Inr False, snd (addToGallery a s)) \<and>
      length (fst (loadGallery (snd (addToGallery b (snd (addToGallery a s))))))
        = length (fst (loadGallery s)) + 1)"
proof
  show "distinct (map id' (fst (loadGallery s))) \<longrightarrow>
      distinct (map id' (fst (loadGallery (addToGallery_calls artworks s))))"
  proof (induction artworks arbitrary: s)
    case Nil
    then show ?case by simp
  next
    case (Cons x xs)
    then show ?case
      using addToGallery_distinct [of s x] by simp
  qed
next
  show "\<not> quota_exceeded s \<and> \<not> list_ex (\<lambda>item. id' item = id' a) (fst (loadGallery s)) \<and>
    id' b = id' a \<longrightarrow>
      fst (addToGallery a s) = Inr True \<and>
      addToGallery b (snd (addToGallery a s)) = (Inr False, snd (addToGallery a s)) \<and>
      length (fst (loadGallery (snd (addToGallery b (snd (addToGallery a s))))))
        = length (fst (loadGallery s)) + 1"
    by (simp add: addToGallery_eq loadGallery_saved)
qed

text \<open>The empty storage, with the same artwork added twice.\<close>

theorem addToGallery_unique_witness:
  "distinct (map id' (fst (loadGallery empty_storage))) \<and>
   distinct (map id' (fst (loadGallery
     (addToGallery_calls [starry_night, starry_night] empty_storage)))) \<and>
   \<not> quota_exceeded empty_storage \<and>
   \<not> list_ex (\<lambda>item. id' item = id' starry_night) (fst (loadGallery empty_storage)) \<and>
   length (fst (loadGallery empty_storage)) = 0 \<and>
   fst (addToGallery starry_night empty_storage) = Inr True \<and>
   addToGallery starry_night (snd (addToGallery starry_night empty_storage))
     = (Inr False, snd (addToGallery starry_night empty_storage)) \<and>
   length (fst (loadGallery (snd (addToGallery starry_night
     (snd (addToGallery starry_night empty_storage))))))
     = length (fst (loadGallery empty_storage)) + 1"
proof -
  have h: "distinct (map id' (fst (loadGallery empty_storage)))"
    "\<not> quota_exceeded empty_storage"
    "\<not> list_ex (\<lambda>item. id' item = id' starry_night) (fst (loadGallery empty_storage))"
    "length (fst (loadGallery empty_storage)) = 0"
    "id' starry_night = id' starry_night"
    by (simp_all add: loadGallery_empty_storage) (simp add: empty_storage_def)
  show ?thesis
    using h addToGallery_unique [of empty_storage "[starry_night, starry_night]"
        starry_night starry_night]
    by blast
qed

subsection \<open>C2: the note of a saved artwork\<close>

text \<open>
  C2, as amended. \<^verbatim>\<open>SavedArtworkSchema\<close> declares \<^verbatim>\<open>note\<close> as
  \<^verbatim>\<open>z.string().default("")\<close>, with no limit: a value that is accepted stays accepted
  when its note is set to any string \<open>n\<close>, whatever its length, and the result carries
  \<open>n\<close>; when the note is absent the result's note is the empty string. The limit of 500
  is in \<^verbatim>\<open>NoteSchema\<close>, which \<^verbatim>\<open>SavedArtworkSchema\<close> does not use: there a longer
  note is refused with the issue \<^verbatim>\<open>too_big\<close>.
\<close>

theorem SavedArtworkSchema_note:
  "(SavedArtworkSchema_parse (JObj kvs) = Inr a \<longrightarrow>
      SavedArtworkSchema_parse (JObj ((''note'', JStr n) # kvs)) = Inr (a\<lparr>note' := n\<rparr>)) \<and>
   (SavedArtworkSchema_parse (JObj kvs) = Inr a \<and> map_of kvs ''note'' = None \<longrightarrow>
      note' a = '''') \<and>
   (500 < length n \<longrightarrow>
      NoteSchema_parse (JObj [(''artworkId'', JNum i), (''note'', JStr n)])
        = Inl [Too_big [''note'']])"
  by (auto simp: SavedArtworkSchema_parse_obj z_default_def z_string_def
      NoteSchema_parse_def z_number_def z_string_max_def z_both_def)

text \<open>A record without a note, and the same record with a note of 501 characters.\<close>

theorem SavedArtworkSchema_note_witness:
  "SavedArtworkSchema_parse
     (JObj [(''id'', JNum 27), (''title'', JStr ''Nighthawks''),
            (''artist_title'', JNull), (''image_id'', JNull)])
     = Inr \<lparr>id' = 27, title = ''Nighthawks'', artist_title = None, image_id = None,
            date_display = Undefined, medium_display = Undefined,
            place_of_origin = Undefined, dimensions = Undefined, note' = ''''\<rparr> \<and>
   SavedArtworkSchema_parse
     (JObj [(''note'', JStr (replicate 501 (CHR ''x''))),
            (''id'', JNum 27), (''title'', JStr ''Nighthawks''),
            (''artist_title'', JNull), (''image_id'', JNull)])
     = Inr \<lparr>id' = 27, title = ''Nighthawks'', artist_title = None, image_id = None,
            date_display = Undefined, medium_display = Undefined,
            place_of_origin = Undefined, dimensions = Undefined,
            note' = replicate 501 (CHR ''x'')\<rparr> \<and>
   500 < length (replicate 501 (CHR ''x'')) \<and>
   NoteSchema_parse (JObj [(''artworkId'', JNum 27),
                           (''note'', JStr (replicate 501 (CHR ''x'')))])
     = Inl [Too_big [''note'']]"
proof -
  have p: "SavedArtworkSchema_parse
     (JObj [(''id'', JNum 27), (''title'', JStr ''Nighthawks''),
            (''artist_title'', JNull), (''image_id'', JNull)])
     = Inr \<lparr>id' = 27, title = ''Nighthawks'', artist_title = None, image_id = None,
            date_display = Undefined, medium_display = Undefined,
            place_of_origin = Undefined, dimensions = Undefined, note' = ''''\<rparr>"
    by (simp add: SavedArtworkSchema_parse_def z_number_def z_string_def z_nullable_def
        z_optional_def z_default_def)
  have l: "500 < length (replicate 501 (CHR ''x''))"
    by simp
  show ?thesis
    using p l
      SavedArtworkSchema_note [of
        "[(''id'', JNum 27), (''title'', JStr ''Nighthawks''),
          (''artist_title'', JNull), (''image_id'', JNull)]"
        "\<lparr>id' = 27, title = ''Nighthawks'', artist_title = None, image_id = None,
            date_display = Undefined, medium_display = Undefined,
            place_of_origin = Undefined, dimensions = Undefined, note' = ''''\<rparr>"
        "replicate 501 (CHR ''x'')" 27]
    by simp
qed

text \<open>
  The claim as written fails: a persisted record whose note has 501 characters is
  accepted, note included.
\<close>

theorem SavedArtworkSchema_long_note_counterexample:
  "500 < length (replicate 501 (CHR ''x'')) \<and>
   SavedArtworkSchema_parse
     (JObj [(''id'', JNum 27), (''title'', JStr ''Nighthawks''),
            (''artist_title'', JNull), (''image_id'', JNull),
            (''note'', JStr (replicate 501 (CHR ''x'')))])
     = Inr \<lparr>id' = 27, title = ''Nighthawks'', artist_title = None, image_id = None,
            date_display = Undefined, medium_display = Undefined,
            place_of_origin = Undefined, dimensions = Undefined,
            note' = replicate 501 (CHR ''x'')\<rparr>"
  by (simp add: SavedArtworkSchema_parse_def z_number_def z_string_def z_nullable_def
      z_optional_def z_default_def)

subsection \<open>C3: the length of a note\<close>

text \<open>
  C3, as amended. On a gallery that holds the identifier, and when the storage takes the
  write, \<^verbatim>\<open>updateNote\<close> with a note of exactly 500 characters answers \<^verbatim>\<open>true\<close>,
  and what it writes is the gallery with the note of the first record of that identifier
  replaced: such a gallery is \<open>pre @ x # post\<close> with \<open>x\<close> the first record of the
  identifier, and the text written, and loaded afterwards, is that of
  \<open>pre @ x\<lparr>note' := n\<rparr> # post\<close>. With a note of more than 500 characters the
  \<^verbatim>\<open>try\<close> block throws the error \<^verbatim>\<open>"Notiz darf maximal 500 Zeichen lang sein"\<close>
  before anything is read, for every storage, and the storage is left as it was; the
  \<^verbatim>\<open>catch\<close> throws \<^verbatim>\<open>"Notiz konnte nicht aktualisiert werden"\<close> in its place,
  which is also the error of a write that the storage refuses, so the caller is not
  told that the note was too long.
\<close>

theorem updateNote_length:
  "(length n = 500 \<and> list_ex (\<lambda>item. id' item = i) (fst (loadGallery s)) \<and>
    \<not> quota_exceeded s \<longrightarrow>
      fst (updateNote i n s) = Inr True \<and>
      (\<exists>pre x post. fst (loadGallery s) = pre @ x # post \<and> id' x = i \<and>
         (\<forall>y\<in>set pre. id' y \<noteq> i))) \<and>
   (length n = 500 \<and> fst (loadGallery s) = pre @ x # post \<and> id' x = i \<and>
    (\<forall>y\<in>set pre. id' y \<noteq> i) \<and> \<not> quota_exceeded s \<longrightarrow>
      updateNote i n s =
        (Inr True,
         s\<lparr>entries := (entries s)(GALLERY_STORAGE_KEY \<mapsto>
             JSON_stringify (pre @ x\<lparr>note' := n\<rparr> # post))\<rparr>) \<and>
      fst (loadGallery (snd (updateNote i n s))) = pre @ x\<lparr>note' := n\<rparr> # post) \<and>
   (500 < length n \<longrightarrow>
      updateNote_try i n s = (Inl (Error ''Notiz darf maximal 500 Zeichen lang sein''), s) \<and>
      updateNote i n s = (Inl (Error ''Notiz konnte nicht aktualisiert werden''), s)) \<and>
   (length n \<le> 500 \<and> list_ex (\<lambda>item. id' item = i) (fst (loadGallery s)) \<and>
    quota_exceeded s \<longrightarrow>
      updateNote i n s = (Inl (Error ''Notiz konnte nicht aktualisiert werden''), s))"
proof (intro conjI impI)
  assume h: "length n = 500 \<and> list_ex (\<lambda>item. id' item = i) (fst (loadGallery s)) \<and>
    \<not> quota_exceeded s"
  then show "fst (updateNote i n s) = Inr True"
    by (simp add: updateNote_eq)
  from h have "list_ex (\<lambda>item. id' item = i) (fst (loadGallery s))"
    by simp
  then show "\<exists>pre x post. fst (loadGallery s) = pre @ x # post \<and> id' x = i \<and>
         (\<forall>y\<in>set pre. id' y \<noteq> i)"
    by (rule first_match_exists)
next
  assume h: "length n = 500 \<and> fst (loadGallery s) = pre @ x # post \<and> id' x = i \<and>
    (\<forall>y\<in>set pre. id' y \<noteq> i) \<and> \<not> quota_exceeded s"
  then have u: "updateNote i n s =
        (Inr True,
         s\<lparr>entries := (entries s)(GALLERY_STORAGE_KEY \<mapsto>
             JSON_stringify (pre @ x\<lparr>note' := n\<rparr> # post))\<rparr>)"
    by (intro updateNote_first) simp_all
  then show "updateNote i n s =
        (Inr True,
         s\<lparr>entries := (entries s)(GALLERY_STORAGE_KEY \<mapsto>
             JSON_stringify (pre @ x\<lparr>note' := n\<rparr> # post))\<rparr>)" .
  show "fst (loadGallery (snd (updateNote i n s))) = pre @ x\<lparr>note' := n\<rparr> # post"
    by (simp add: u loadGallery_saved)
next
  assume long: "500 < length n"
  then show "updateNote_try i n s
      = (Inl (Error ''Notiz darf maximal 500 Zeichen lang sein''), s)"
    by (simp add: updateNote_try_def)
  from long show "updateNote i n s
      = (Inl (Error ''Notiz konnte nicht aktualisiert werden''), s)"
    by (simp add: updateNote_eq)
next
  assume "length n \<le> 500 \<and> list_ex (\<lambda>item. id' item = i) (fst (loadGallery s)) \<and>
    quota_exceeded s"
  then show "updateNote i n s = (Inl (Error ''Notiz konnte nicht aktualisiert werden''), s)"
    by (simp add: updateNote_eq)
qed

text \<open>
  Three saved artworks, the second one with the identifier 1: a note of 500
  characters, a note of 501 characters, and a note of 500 characters on a full storage.
\<close>

theorem updateNote_length_witness:
  "length (replicate 500 (CHR ''x'')) = 500 \<and>
   list_ex (\<lambda>item. id' item = 1) (fst (loadGallery three_saved)) \<and>
   fst (loadGallery three_saved) =
     [saved_record 2 ''other''] @ saved_record 1 ''first'' # [saved_record 3 ''another''] \<and>
   id' (saved_record 1 ''first'') = 1 \<and>
   id' (saved_record 2 ''other'') \<noteq> 1 \<and>
   \<not> quota_exceeded three_saved \<and>
   updateNote 1 (replicate 500 (CHR ''x'')) three_saved =
     (Inr True,
      three_saved\<lparr>entries := (entries three_saved)(GALLERY_STORAGE_KEY \<mapsto>
        JSON_stringify ([saved_record 2 ''other''] @
          (saved_record 1 ''first'')\<lparr>note' := replicate 500 (CHR ''x'')\<rparr> #
          [saved_record 3 ''another'']))\<rparr>) \<and>
   fst (loadGallery (snd (updateNote 1 (replicate 500 (CHR ''x'')) three_saved))) =
     [saved_record 2 ''other''] @
       (saved_record 1 ''first'')\<lparr>note' := replicate 500 (CHR ''x'')\<rparr> #
       [saved_record 3 ''another''] \<and>
   500 < length (replicate 501 (CHR ''x'')) \<and>
   updateNote 1 (replicate 501 (CHR ''x'')) three_saved
     = (Inl (Error ''Notiz konnte nicht aktualisiert werden''), three_saved) \<and>
   quota_exceeded (three_saved\<lparr>quota_exceeded := True\<rparr>) \<and>
   updateNote 1 (replicate 500 (CHR ''x'')) (three_saved\<lparr>quota_exceeded := True\<rparr>)
     = (Inl (Error ''Notiz konnte nicht aktualisiert werden''),
        three_saved\<lparr>quota_exceeded := True\<rparr>)"
proof -
  have g: "fst (loadGallery three_saved) =
     [saved_record 2 ''other''] @ saved_record 1 ''first'' # [saved_record 3 ''another'']"
    by (rule loadGallery_three_saved)
  have gq: "fst (loadGallery (three_saved\<lparr>quota_exceeded := True\<rparr>)) =
     [saved_record 2 ''other''] @ saved_record 1 ''first'' # [saved_record 3 ''another'']"
    by (rule loadGallery_stringify) (simp add: three_saved_def)
  have h: "length (replicate 500 (CHR ''x'')) = 500"
    "length (replicate 500 (CHR ''x'')) \<le> 500"
    "500 < length (replicate 501 (CHR ''x''))"
    "id' (saved_record 1 ''first'') = 1"
    "\<forall>y\<in>set [saved_record 2 ''other'']. id' y \<noteq> 1"
    "\<not> quota_exceeded three_saved"
    "quota_exceeded (three_saved\<lparr>quota_exceeded := True\<rparr>)"
    "id' (saved_record 2 ''other'') \<noteq> 1"
    by (simp_all add: saved_record_def three_saved_def)
  have ex: "list_ex (\<lambda>item. id' item = 1) (fst (loadGallery three_saved))"
    "list_ex (\<lambda>item. id' item = 1) (fst (loadGallery (three_saved\<lparr>quota_exceeded := True\<rparr>)))"
    by (simp_all add: g gq saved_record_def)
  note t1 = updateNote_length [of "replicate 500 (CHR ''x'')" 1 three_saved
      "[saved_record 2 ''other'']" "saved_record 1 ''first''" "[saved_record 3 ''another'']"]
  note t2 = updateNote_length [of "replicate 501 (CHR ''x'')" 1 three_saved
      "[saved_record 2 ''other'']" "saved_record 1 ''first''" "[saved_record 3 ''another'']"]
  note t3 = updateNote_length [of "replicate 500 (CHR ''x'')" 1
      "three_saved\<lparr>quota_exceeded := True\<rparr>"
      "[saved_record 2 ''other'']" "saved_record 1 ''first''" "[saved_record 3 ''another'']"]
  have c1: "updateNote 1 (replicate 500 (CHR ''x'')) three_saved =
     (Inr True,
      three_saved\<lparr>entries := (entries three_saved)(GALLERY_STORAGE_KEY \<mapsto>
        JSON_stringify ([saved_record 2 ''other''] @
          (saved_record 1 ''first'')\<lparr>note' := replicate 500 (CHR ''x'')\<rparr> #
          [saved_record 3 ''another'']))\<rparr>) \<and>
     fst (loadGallery (snd (updateNote 1 (replicate 500 (CHR ''x'')) three_saved))) =
     [saved_record 2 ''other''] @
       (saved_record 1 ''first'')\<lparr>note' := replicate 500 (CHR ''x'')\<rparr> #
       [saved_record 3 ''another'']"
    using t1 [THEN conjunct2, THEN conjunct1] h(1,4,5,6) g by (elim impE) (intro conjI)
  have c2: "updateNote 1 (replicate 501 (CHR ''x'')) three_saved
     = (Inl (Error ''Notiz konnte nicht aktualisiert werden''), three_saved)"
    using t2 [THEN conjunct2, THEN conjunct2, THEN conjunct1] h(3) by (elim impE) simp_all
  have c3: "updateNote 1 (replicate 500 (CHR ''x'')) (three_saved\<lparr>quota_exceeded := True\<rparr>)
     = (Inl (Error ''Notiz konnte nicht aktualisiert werden''),
        three_saved\<lparr>quota_exceeded := True\<rparr>)"
    using t3 [THEN conjunct2, THEN conjunct2, THEN conjunct2] h(2,7) ex(2)
    by (elim impE) (intro conjI)
  show ?thesis
    using h(1,3,4,6,7,8) ex(1) g c1 c2 c3 by (intro conjI) (elim conjE; assumption)+
qed

text \<open>
  The claim as written fails: the error that \<^verbatim>\<open>updateNote\<close> throws for a note of 501
  characters is the error it throws when the storage refuses a write; it is neither the
  length error of the \<^verbatim>\<open>try\<close> block nor a \<^verbatim>\<open>ZodError\<close> with the issue
  \<^verbatim>\<open>too_big\<close>.
\<close>

theorem updateNote_error_kind_counterexample:
  "500 < length (replicate 501 (CHR ''x'')) \<and>
   fst (updateNote 1 (replicate 501 (CHR ''x'')) three_saved)
     = Inl (Error ''Notiz konnte nicht aktualisiert werden'') \<and>
   length ''x'' \<le> 500 \<and>
   fst (updateNote 1 ''x'' (three_saved\<lparr>quota_exceeded := True\<rparr>))
     = Inl (Error ''Notiz konnte nicht aktualisiert werden'') \<and>
   Error ''Notiz konnte nicht aktualisiert werden''
     \<noteq> Error ''Notiz darf maximal 500 Zeichen lang sein'' \<and>
   Error ''Notiz konnte nicht aktualisiert werden'' \<noteq> ZodError [Too_big [''note'']]"
proof -
  have gq: "fst (loadGallery (three_saved\<lparr>quota_exceeded := True\<rparr>)) =
     [saved_record 2 ''other''] @ saved_record 1 ''first'' # [saved_record 3 ''another'']"
    by (rule loadGallery_stringify) (simp add: three_saved_def)
  show ?thesis
    by (simp add: updateNote_eq gq saved_record_def)
qed

subsection \<open>C4: loadGallery on any stored text\<close>

text \<open>
  C4. \<^verbatim>\<open>loadGallery\<close> answers a list for every stored text and leaves the storage as
  it was: no entry, the empty text and a text that \<^verbatim>\<open>JSON.parse\<close> refuses (the
  \<^verbatim>\<open>SyntaxError\<close> of the \<^verbatim>\<open>try\<close> block is caught) give the empty list; so does a
  JSON value that is not an array; for an array the answer is, in order, the elements that
  \<^verbatim>\<open>SavedArtworkSchema\<close> accepts, each element that it refuses being dropped. For an
  array of one accepted record and one record without \<^verbatim>\<open>id\<close> the answer is the
  accepted record alone.
\<close>

theorem loadGallery_degrades:
  "(entries s GALLERY_STORAGE_KEY = None \<longrightarrow> loadGallery s = ([], s)) \<and>
   (entries s GALLERY_STORAGE_KEY = Some EmptyText \<longrightarrow> loadGallery s = ([], s)) \<and>
   (entries s GALLERY_STORAGE_KEY = Some BadText \<longrightarrow>
      loadGallery_try s = (Inl SyntaxError, s) \<and> loadGallery s = ([], s)) \<and>
   (entries s GALLERY_STORAGE_KEY = Some (JsonText v) \<and> \<not> isArray v \<longrightarrow>
      loadGallery s = ([], s)) \<and>
   (entries s GALLERY_STORAGE_KEY = Some (JsonText (JArr xs)) \<longrightarrow>
      loadGallery s =
        (concat (map (\<lambda>x. case SavedArtworkSchema_parse x of Inl e \<Rightarrow> [] | Inr a \<Rightarrow> [a]) xs),
         s)) \<and>
   (entries s GALLERY_STORAGE_KEY = Some (JsonText (JArr [good, bad])) \<and>
    SavedArtworkSchema_parse good = Inr a \<and> field bad ''id'' = None \<longrightarrow>
      loadGallery s = ([a], s))"
proof -
  have "isl (SavedArtworkSchema_parse bad)" if "field bad ''id'' = None"
    using that by (rule missing_id_rejected)
  then show ?thesis
    by (auto simp: loadGallery_def loadGallery_try_eq isArray_def isl_def
        split: json.splits)
qed

text \<open>
  The empty storage, a text that does not parse, the text of an object, and an array of
  one good record and one without \<^verbatim>\<open>id\<close>.
\<close>

theorem loadGallery_degrades_witness:
  "entries empty_storage GALLERY_STORAGE_KEY = None \<and>
   loadGallery empty_storage = ([], empty_storage) \<and>
   entries \<lparr>entries = [GALLERY_STORAGE_KEY \<mapsto> BadText], quota_exceeded = False\<rparr>
     GALLERY_STORAGE_KEY = Some BadText \<and>
   loadGallery \<lparr>entries = [GALLERY_STORAGE_KEY \<mapsto> BadText], quota_exceeded = False\<rparr>
     = ([], \<lparr>entries = [GALLERY_STORAGE_KEY \<mapsto> BadText], quota_exceeded = False\<rparr>) \<and>
   entries \<lparr>entries = [GALLERY_STORAGE_KEY \<mapsto> JsonText (JObj [])], quota_exceeded = False\<rparr>
     GALLERY_STORAGE_KEY = Some (JsonText (JObj [])) \<and>
   \<not> isArray (JObj []) \<and>
   loadGallery \<lparr>entries = [GALLERY_STORAGE_KEY \<mapsto> JsonText (JObj [])],
                quota_exceeded = False\<rparr>
     = ([], \<lparr>entries = [GALLERY_STORAGE_KEY \<mapsto> JsonText (JObj [])],
             quota_exceeded = False\<rparr>) \<and>
   entries corrupt_storage GALLERY_STORAGE_KEY = Some (JsonText (JArr
        [JObj [(''id'', JNum 1), (''title'', JStr ''Starry Night''),
               (''artist_title'', JStr ''Van Gogh''), (''image_id'', JNull)],
         JObj [(''title'', JStr ''Water Lilies''), (''artist_title'', JStr ''Monet''),
               (''image_id'', JNull), (''note'', JStr ''no id'')]])) \<and>
   SavedArtworkSchema_parse
     (JObj [(''id'', JNum 1), (''title'', JStr ''Starry Night''),
            (''artist_title'', JStr ''Van Gogh''), (''image_id'', JNull)])
     = Inr \<lparr>id' = 1, title = ''Starry Night'', artist_title = Some ''Van Gogh'',
            image_id = None, date_display = Undefined, medium_display = Undefined,
            place_of_origin = Undefined, dimensions = Undefined, note' = ''''\<rparr> \<and>
   field (JObj [(''title'', JStr ''Water Lilies''), (''artist_title'', JStr ''Monet''),
                (''image_id'', JNull), (''note'', JStr ''no id'')]) ''id'' = None \<and>
   loadGallery corrupt_storage =
     ([\<lparr>id' = 1, title = ''Starry Night'', artist_title = Some ''Van Gogh'',
        image_id = None, date_display = Undefined, medium_display = Undefined,
        place_of_origin = Undefined, dimensions = Undefined, note' = ''''\<rparr>],
      corrupt_storage)"
proof -
  have e: "entries empty_storage GALLERY_STORAGE_KEY = None"
    by (simp add: empty_storage_def)
  have b: "entries \<lparr>entries = [GALLERY_STORAGE_KEY \<mapsto> BadText], quota_exceeded = False\<rparr>
     GALLERY_STORAGE_KEY = Some BadText"
    by simp
  have o: "entries \<lparr>entries = [GALLERY_STORAGE_KEY \<mapsto> JsonText (JObj [])],
             quota_exceeded = False\<rparr> GALLERY_STORAGE_KEY = Some (JsonText (JObj []))"
    "\<not> isArray (JObj [])"
    by (simp_all add: isArray_def)
  have c: "entries corrupt_storage GALLERY_STORAGE_KEY = Some (JsonText (JArr
        [JObj [(''id'', JNum 1), (''title'', JStr ''Starry Night''),
               (''artist_title'', JStr ''Van Gogh''), (''image_id'', JNull)],
         JObj [(''title'', JStr ''Water Lilies''), (''artist_title'', JStr ''Monet''),
               (''image_id'', JNull), (''note'', JStr ''no id'')]]))"
    by (simp add: corrupt_storage_def)
  have p: "SavedArtworkSchema_parse
     (JObj [(''id'', JNum 1), (''title'', JStr ''Starry Night''),
            (''artist_title'', JStr ''Van Gogh''), (''image_id'', JNull)])
     = Inr \<lparr>id' = 1, title = ''Starry Night'', artist_title = Some ''Van Gogh'',
            image_id = None, date_display = Undefined, medium_display = Undefined,
            place_of_origin = Undefined, dimensions = Undefined, note' = ''''\<rparr>"
    by (simp add: SavedArtworkSchema_parse_def z_number_def z_string_def z_nullable_def
        z_optional_def z_default_def)
  have f: "field (JObj [(''title'', JStr ''Water Lilies''), (''artist_title'', JStr ''Monet''),
                (''image_id'', JNull), (''note'', JStr ''no id'')]) ''id'' = None"
    by simp
  show ?thesis
    using e b o c p f
      loadGallery_degrades [of empty_storage]
      loadGallery_degrades [of
        "\<lparr>entries = [GALLERY_STORAGE_KEY \<mapsto> BadText], quota_exceeded = False\<rparr>"]
      loadGallery_degrades [of
        "\<lparr>entries = [GALLERY_STORAGE_KEY \<mapsto> JsonText (JObj [])], quota_exceeded = False\<rparr>"
        "JObj []"]
      loadGallery_degrades [of corrupt_storage _ _
        "JObj [(''id'', JNum 1), (''title'', JStr ''Starry Night''),
               (''artist_title'', JStr ''Van Gogh''), (''image_id'', JNull)]"
        "JObj [(''title'', JStr ''Water Lilies''), (''artist_title'', JStr ''Monet''),
               (''image_id'', JNull), (''note'', JStr ''no id'')]"
        "\<lparr>id' = 1, title = ''Starry Night'', artist_title = Some ''Van Gogh'',
            image_id = None, date_display = Undefined, medium_display = Undefined,
            place_of_origin = Undefined, dimensions = Undefined, note' = ''''\<rparr>"]
    by simp
qed

subsection \<open>C5: what ArtworkSchema rejects\<close>

text \<open>
  C5, as amended. \<^verbatim>\<open>ArtworkSchema.parse\<close> throws exactly when \<^verbatim>\<open>id\<close> is missing or
  is not a finite number, or when a field that is there has the wrong type:
  \<^verbatim>\<open>title\<close> is not a string (\<^verbatim>\<open>null\<close> included), or one of the other fields is
  neither a string nor \<^verbatim>\<open>null\<close>. A value that is not an object has no \<^verbatim>\<open>id\<close>.
  The schema asks for \<^verbatim>\<open>z.number()\<close>, so a number that is not an integer is
  accepted.
\<close>

theorem ArtworkSchema_rejects:
  "isl (ArtworkSchema_parse v) \<longleftrightarrow>
     \<not> is_number (field v ''id'') \<or>
     present_not_string (field v ''title'') \<or>
     present_not_string_or_null (field v ''artist_title'') \<or>
     present_not_string_or_null (field v ''image_id'') \<or>
     present_not_string_or_null (field v ''date_display'') \<or>
     present_not_string_or_null (field v ''medium_display'') \<or>
     present_not_string_or_null (field v ''place_of_origin'') \<or>
     present_not_string_or_null (field v ''dimensions'')"
proof (cases v)
  case (JObj kvs)
  then show ?thesis
    using isl_ArtworkSchema_parse_obj [of kvs] by simp
qed (simp_all add: ArtworkSchema_parse_def is_number_def)

text \<open>An identifier that is a string is rejected; a number with a title is accepted.\<close>

theorem ArtworkSchema_rejects_witness:
  "isl (ArtworkSchema_parse (JObj [(''id'', JStr ''27'')])) \<and>
   \<not> isl (ArtworkSchema_parse (JObj [(''id'', JNum 27), (''title'', JStr ''Nighthawks'')]))"
  using ArtworkSchema_rejects [of "JObj [(''id'', JStr ''27'')]"]
    ArtworkSchema_rejects [of "JObj [(''id'', JNum 27), (''title'', JStr ''Nighthawks'')]"]
  by (simp add: is_number_def present_not_string_def present_not_string_or_null_def)

text \<open>
  The claim as written fails: the identifier \<^verbatim>\<open>1.5\<close> is a number and not an integer,
  and the value is accepted.
\<close>

theorem ArtworkSchema_fraction_counterexample:
  "(3 / 2 :: rat) \<notin> \<int> \<and>
   ArtworkSchema_parse (JObj [(''id'', JNum (3 / 2))]) =
     Inr \<lparr>id' = 3 / 2, title = Unbekannter_Titel,
          artist_title = Some Unbekannter_Kuenstler, image_id = None,
          date_display = Undefined, medium_display = Undefined,
          place_of_origin = Undefined, dimensions = Undefined\<rparr>"
  by (simp add: ArtworkSchema_parse_def z_number_def z_default_def z_optional_def)

subsection \<open>C6: the defaults of ArtworkSchema\<close>

text \<open>
  C6, as amended. For every value that \<^verbatim>\<open>ArtworkSchema.parse\<close> accepts: when
  \<^verbatim>\<open>title\<close> is absent the result's title is \<^verbatim>\<open>"Unbekannter Titel"\<close>, and
  \<^verbatim>\<open>title\<close> is never \<^verbatim>\<open>null\<close> (such a value is refused); when \<^verbatim>\<open>artist_title\<close>
  is absent the result's artist is \<^verbatim>\<open>"Unbekannter K\<close>\<open>\<udieresis>\<close>\<^verbatim>\<open>nstler"\<close>, and when it is
  \<^verbatim>\<open>null\<close> the result's artist is \<^verbatim>\<open>null\<close>; when \<^verbatim>\<open>image_id\<close> is absent the
  result's image is \<^verbatim>\<open>null\<close>.
\<close>

theorem ArtworkSchema_defaults:
  assumes "ArtworkSchema_parse v = Inr a"
  shows "(field v ''title'' = None \<longrightarrow> title a = ''Unbekannter Titel'') \<and>
         field v ''title'' \<noteq> Some JNull \<and>
         (field v ''artist_title'' = None \<longrightarrow>
            artist_title a = Some (''Unbekannter K'' @ [CHR 0xFC] @ ''nstler'')) \<and>
         (field v ''artist_title'' = Some JNull \<longrightarrow> artist_title a = None) \<and>
         (field v ''image_id'' = None \<longrightarrow> image_id a = None)"
  using ArtworkSchema_parse_Inr [OF assms]
  by (auto simp: z_default_def z_nullable_def z_string_def Unbekannter_Titel_def
      Unbekannter_Kuenstler_def)

text \<open>A value with an identifier only, and one whose artist is \<^verbatim>\<open>null\<close>.\<close>

theorem ArtworkSchema_defaults_witness:
  "ArtworkSchema_parse (JObj [(''id'', JNum 27)]) =
     Inr \<lparr>id' = 27, title = ''Unbekannter Titel'',
          artist_title = Some (''Unbekannter K'' @ [CHR 0xFC] @ ''nstler''), image_id = None,
          date_display = Undefined, medium_display = Undefined,
          place_of_origin = Undefined, dimensions = Undefined\<rparr> \<and>
   title \<lparr>id' = 27, title = ''Unbekannter Titel'',
          artist_title = Some (''Unbekannter K'' @ [CHR 0xFC] @ ''nstler''), image_id = None,
          date_display = Undefined, medium_display = Undefined,
          place_of_origin = Undefined, dimensions = Undefined\<rparr> = ''Unbekannter Titel''"
proof -
  have p: "ArtworkSchema_parse (JObj [(''id'', JNum 27)]) =
     Inr \<lparr>id' = 27, title = ''Unbekannter Titel'',
          artist_title = Some (''Unbekannter K'' @ [CHR 0xFC] @ ''nstler''), image_id = None,
          date_display = Undefined, medium_display = Undefined,
          place_of_origin = Undefined, dimensions = Undefined\<rparr>"
    by (simp add: ArtworkSchema_parse_def z_number_def z_default_def z_optional_def
        Unbekannter_Titel_def Unbekannter_Kuenstler_def)
  show ?thesis
    using p ArtworkSchema_defaults [OF p] by simp
qed

text \<open>
  The claim as written fails: with \<^verbatim>\<open>artist_title: null\<close> and no title the value is
  accepted, the artist of the result is \<^verbatim>\<open>null\<close>, not \<^verbatim>\<open>"Unknown artist"\<close>, and
  its title is not \<^verbatim>\<open>"Unknown title"\<close>.
\<close>

theorem ArtworkSchema_null_artist_counterexample:
  "ArtworkSchema_parse (JObj [(''id'', JNum 27), (''artist_title'', JNull)]) =
     Inr \<lparr>id' = 27, title = ''Unbekannter Titel'', artist_title = None, image_id = None,
          date_display = Undefined, medium_display = Undefined,
          place_of_origin = Undefined, dimensions = Undefined\<rparr> \<and>
   field (JObj [(''id'', JNum 27), (''artist_title'', JNull)]) ''artist_title'' = Some JNull \<and>
   field (JObj [(''id'', JNum 27), (''artist_title'', JNull)]) ''title'' = None \<and>
   (None :: string option) \<noteq> Some ''Unknown artist'' \<and>
   ''Unbekannter Titel'' \<noteq> ''Unknown title''"
  by (simp add: ArtworkSchema_parse_def z_number_def z_default_def z_optional_def
      z_nullable_def Unbekannter_Titel_def)

subsection \<open>C7: an added artwork is loaded back\<close>

text \<open>
  C7. When the storage takes the write and the identifier of the artwork is not in the
  gallery, \<^verbatim>\<open>addToGallery\<close> answers \<^verbatim>\<open>true\<close> and \<^verbatim>\<open>loadGallery\<close> then answers
  the former gallery followed by a record that has every field of the artwork and the
  empty note.
\<close>

theorem addToGallery_roundtrip:
  assumes "\<not> quota_exceeded s"
    and "\<not> list_ex (\<lambda>item. id' item = id' a) (fst (loadGallery s))"
  shows "fst (addToGallery a s) = Inr True \<and>
         fst (loadGallery (snd (addToGallery a s))) =
           fst (loadGallery s) @
             [\<lparr>id' = id' a, title = title a, artist_title = artist_title a,
               image_id = image_id a, date_display = date_display a,
               medium_display = medium_display a, place_of_origin = place_of_origin a,
               dimensions = dimensions a, note' = ''''\<rparr>]"
  using assms by (simp add: addToGallery_eq loadGallery_saved)

text \<open>The artwork of the end-to-end scenario, added to the empty storage.\<close>

theorem addToGallery_roundtrip_witness:
  "\<not> quota_exceeded empty_storage \<and>
   \<not> list_ex (\<lambda>item. id' item = id' starry_night) (fst (loadGallery empty_storage)) \<and>
   fst (addToGallery starry_night empty_storage) = Inr True \<and>
   fst (loadGallery (snd (addToGallery starry_night empty_storage))) =
     [\<lparr>id' = 1, title = ''Starry Night'', artist_title = Some ''Van Gogh'', image_id = None,
       date_display = Undefined, medium_display = Undefined, place_of_origin = Undefined,
       dimensions = Undefined, note' = ''''\<rparr>]"
proof -
  have h: "\<not> quota_exceeded empty_storage"
    "\<not> list_ex (\<lambda>item. id' item = id' starry_night) (fst (loadGallery empty_storage))"
    by (simp_all add: loadGallery_empty_storage) (simp add: empty_storage_def)
  show ?thesis
    using h addToGallery_roundtrip [OF h]
    by (simp add: loadGallery_empty_storage starry_night_def)
qed

subsection \<open>C8: an identifier that is not in the gallery\<close>

text \<open>
  C8. When no loaded record has the identifier (the empty gallery included),
  \<^verbatim>\<open>updateNote\<close> with a note of at most 500 characters and \<^verbatim>\<open>removeFromGallery\<close>
  both answer \<^verbatim>\<open>false\<close> and leave the storage as it was.
\<close>

theorem not_found_unchanged:
  assumes "\<not> list_ex (\<lambda>item. id' item = i) (fst (loadGallery s))"
    and "length n \<le> 500"
  shows "updateNote i n s = (Inr False, s) \<and> removeFromGallery i s = (Inr False, s)"
  using assms by (simp add: updateNote_eq removeFromGallery_eq)

text \<open>The identifier 999 on the empty storage.\<close>

theorem not_found_unchanged_witness:
  "\<not> list_ex (\<lambda>item. id' item = 999) (fst (loadGallery empty_storage)) \<and>
   length ''x'' \<le> 500 \<and>
   updateNote 999 ''x'' empty_storage = (Inr False, empty_storage) \<and>
   removeFromGallery 999 empty_storage = (Inr False, empty_storage)"
proof -
  have h: "\<not> list_ex (\<lambda>item. id' item = 999) (fst (loadGallery empty_storage))"
    "length ''x'' \<le> 500"
    by (simp_all add: loadGallery_empty_storage)
  show ?thesis
    using h not_found_unchanged [OF h] by simp
qed

subsection \<open>C9: updating a note twice\<close>

text \<open>
  C9. When the gallery holds the identifier, the note has at most 500 characters and
  the storage takes the writes, \<^verbatim>\<open>updateNote\<close> answers \<^verbatim>\<open>true\<close> and the note
  stored for the identifier is the given one; a second call with the same arguments
  answers \<^verbatim>\<open>true\<close> again and the stored note is still the given one.
\<close>

theorem updateNote_twice:
  assumes "list_ex (\<lambda>item. id' item = i) (fst (loadGallery s))"
    and "length n \<le> 500" and "\<not> quota_exceeded s"
  shows "fst (updateNote i n s) = Inr True \<and>
         map_option note' (find (\<lambda>item. id' item = i)
           (fst (loadGallery (snd (updateNote i n s))))) = Some n \<and>
         fst (updateNote i n (snd (updateNote i n s))) = Inr True \<and>
         map_option note' (find (\<lambda>item. id' item = i)
           (fst (loadGallery (snd (updateNote i n (snd (updateNote i n s))))))) = Some n"
proof -
  let ?P = "\<lambda>item. id' item = i"
  let ?g = "fst (loadGallery s)"
  let ?k = "nat (findIndex ?P ?g)"
  let ?y = "(?g ! ?k)\<lparr>note' := n\<rparr>"
  let ?s1 = "snd (updateNote i n s)"
  have Py: "?P ?y"
    using findIndex_some [OF assms(1)] by simp
  have g1: "fst (loadGallery ?s1) = ?g[?k := ?y]"
    using assms by (rule updateNote_gallery(2))
  have ex1: "list_ex ?P (fst (loadGallery ?s1))"
    unfolding g1 using assms(1) Py by (rule list_ex_update)
  have q1: "\<not> quota_exceeded ?s1"
    using assms by (simp add: updateNote_gallery(3))
  have k1: "nat (findIndex ?P (fst (loadGallery ?s1))) = ?k"
    unfolding g1 using findIndex_update [OF assms(1) Py] by simp
  have lt: "?k < length ?g"
    using findIndex_some [OF assms(1)] by simp
  have g2: "fst (loadGallery (snd (updateNote i n ?s1))) = ?g[?k := ?y]"
    unfolding updateNote_gallery(2) [OF ex1 assms(2) q1] k1
    unfolding g1 using lt by simp
  have f: "find ?P (?g[?k := ?y]) = Some ?y"
    using assms(1) Py by (rule find_update)
  show ?thesis
    using updateNote_gallery(1) [OF assms] updateNote_gallery(1) [OF ex1 assms(2) q1]
    by (simp add: g1 g2 f)
qed

text \<open>One saved artwork, its note set to \<^verbatim>\<open>"x"\<close> twice.\<close>

theorem updateNote_twice_witness:
  "list_ex (\<lambda>item. id' item = 1) (fst (loadGallery one_saved)) \<and>
   length ''x'' \<le> 500 \<and> \<not> quota_exceeded one_saved \<and>
   fst (updateNote 1 ''x'' one_saved) = Inr True \<and>
   map_option note' (find (\<lambda>item. id' item = 1)
     (fst (loadGallery (snd (updateNote 1 ''x'' one_saved))))) = Some ''x'' \<and>
   fst (updateNote 1 ''x'' (snd (updateNote 1 ''x'' one_saved))) = Inr True \<and>
   map_option note' (find (\<lambda>item. id' item = 1)
     (fst (loadGallery (snd (updateNote 1 ''x'' (snd (updateNote 1 ''x'' one_saved)))))))
     = Some ''x''"
proof -
  have h: "list_ex (\<lambda>item. id' item = 1) (fst (loadGallery one_saved))"
    "length ''x'' \<le> 500" "\<not> quota_exceeded one_saved"
    by (simp_all add: loadGallery_one_saved) (simp add: one_saved_eq)
  show ?thesis
    using h updateNote_twice [OF h] by simp
qed

subsection \<open>C10: records that share an identifier\<close>

text \<open>
  C10. When the stored text is an array that holds, among any other elements, two
  values that \<^verbatim>\<open>SavedArtworkSchema\<close> accepts and whose identifiers are equal,
  \<^verbatim>\<open>loadGallery\<close> answers both records, each at its place among the accepted
  elements. \<^verbatim>\<open>removeFromGallery\<close> with that identifier answers \<^verbatim>\<open>true\<close> and
  writes the gallery without any record of that identifier, every other record staying
  in its order. \<^verbatim>\<open>updateNote\<close> with that identifier answers \<^verbatim>\<open>true\<close> and writes
  the gallery with the note of the first record of that identifier replaced and nothing
  else changed: when no accepted element before the first of the two has the identifier,
  the first of the two gets the note and the second keeps its own.
\<close>

theorem duplicates_loaded:
  assumes stored: "entries s GALLERY_STORAGE_KEY
      = Some (JsonText (JArr (us @ v1 # ws @ v2 # zs)))"
    and v1: "SavedArtworkSchema_parse v1 = Inr a1"
    and v2: "SavedArtworkSchema_parse v2 = Inr a2"
    and a1: "id' a1 = i" and a2: "id' a2 = i"
    and quota: "\<not> quota_exceeded s" and len: "length n \<le> 500"
  shows "fst (loadGallery s) = accepted us @ a1 # accepted ws @ a2 # accepted zs \<and>
         removeFromGallery i s =
           (Inr True,
            s\<lparr>entries := (entries s)(GALLERY_STORAGE_KEY \<mapsto>
                JSON_stringify (filter (\<lambda>item. id' item \<noteq> i) (fst (loadGallery s))))\<rparr>) \<and>
         fst (loadGallery (snd (removeFromGallery i s))) =
           filter (\<lambda>item. id' item \<noteq> i) (accepted us) @
           filter (\<lambda>item. id' item \<noteq> i) (accepted ws) @
           filter (\<lambda>item. id' item \<noteq> i) (accepted zs) \<and>
         fst (updateNote i n s) = Inr True \<and>
         (\<forall>pre x post.
            fst (loadGallery s) = pre @ x # post \<and> id' x = i \<and> (\<forall>y\<in>set pre. id' y \<noteq> i) \<longrightarrow>
            updateNote i n s =
              (Inr True,
               s\<lparr>entries := (entries s)(GALLERY_STORAGE_KEY \<mapsto>
                   JSON_stringify (pre @ x\<lparr>note' := n\<rparr> # post))\<rparr>) \<and>
            fst (loadGallery (snd (updateNote i n s))) = pre @ x\<lparr>note' := n\<rparr> # post) \<and>
         ((\<forall>y\<in>set (accepted us). id' y \<noteq> i) \<longrightarrow>
            fst (loadGallery (snd (updateNote i n s))) =
              accepted us @ a1\<lparr>note' := n\<rparr> # accepted ws @ a2 # accepted zs)"
proof -
  have g: "fst (loadGallery s) = accepted us @ a1 # accepted ws @ a2 # accepted zs"
    using stored v1 v2 by (simp add: loadGallery_array accepted_simps)
  have ex: "list_ex (\<lambda>item. id' item = i) (fst (loadGallery s))"
    using a1 by (simp add: g)
  have r: "removeFromGallery i s =
           (Inr True,
            s\<lparr>entries := (entries s)(GALLERY_STORAGE_KEY \<mapsto>
                JSON_stringify (filter (\<lambda>item. id' item \<noteq> i) (fst (loadGallery s))))\<rparr>)"
    using ex quota by (simp add: removeFromGallery_eq)
  have rl: "fst (loadGallery (snd (removeFromGallery i s))) =
           filter (\<lambda>item. id' item \<noteq> i) (accepted us) @
           filter (\<lambda>item. id' item \<noteq> i) (accepted ws) @
           filter (\<lambda>item. id' item \<noteq> i) (accepted zs)"
    using a1 a2 by (simp add: r loadGallery_saved g)
  have u: "fst (updateNote i n s) = Inr True"
    using ex quota len by (simp add: updateNote_eq)
  have first: "updateNote i n s =
              (Inr True,
               s\<lparr>entries := (entries s)(GALLERY_STORAGE_KEY \<mapsto>
                   JSON_stringify (pre @ x\<lparr>note' := n\<rparr> # post))\<rparr>) \<and>
            fst (loadGallery (snd (updateNote i n s))) = pre @ x\<lparr>note' := n\<rparr> # post"
    if "fst (loadGallery s) = pre @ x # post" and "id' x = i"
      and "\<forall>y\<in>set pre. id' y \<noteq> i" for pre x post
  proof -
    have w: "updateNote i n s =
              (Inr True,
               s\<lparr>entries := (entries s)(GALLERY_STORAGE_KEY \<mapsto>
                   JSON_stringify (pre @ x\<lparr>note' := n\<rparr> # post))\<rparr>)"
      using that len quota by (rule updateNote_first)
    then show ?thesis
      by (simp add: loadGallery_saved)
  qed
  have dup: "fst (loadGallery (snd (updateNote i n s))) =
              accepted us @ a1\<lparr>note' := n\<rparr> # accepted ws @ a2 # accepted zs"
    if "\<forall>y\<in>set (accepted us). id' y \<noteq> i"
    using first [OF g a1 that] by (rule conjunct2)
  from g r rl u first dup show ?thesis
    by blast
qed

text \<open>
  Four stored records with the identifiers 2, 1, 3 and 1: both records of the
  identifier 1 are loaded, removing 1 leaves the records of 2 and 3, and a new note for 1
  reaches the second record of the array only.
\<close>

theorem duplicates_loaded_witness:
  "entries duplicate_storage GALLERY_STORAGE_KEY
     = Some (JsonText (JArr ([stored_record 2 ''other''] @ stored_record 1 ''first'' #
         [stored_record 3 ''another''] @ stored_record 1 ''second'' # []))) \<and>
   SavedArtworkSchema_parse (stored_record 1 ''first'') = Inr (saved_record 1 ''first'') \<and>
   SavedArtworkSchema_parse (stored_record 1 ''second'') = Inr (saved_record 1 ''second'') \<and>
   id' (saved_record 1 ''first'') = 1 \<and> id' (saved_record 1 ''second'') = 1 \<and>
   \<not> quota_exceeded duplicate_storage \<and> length ''x'' \<le> 500 \<and>
   accepted [stored_record 2 ''other''] = [saved_record 2 ''other''] \<and>
   id' (saved_record 2 ''other'') \<noteq> 1 \<and>
   fst (loadGallery duplicate_storage) =
     [saved_record 2 ''other'', saved_record 1 ''first'',
      saved_record 3 ''another'', saved_record 1 ''second''] \<and>
   fst (removeFromGallery 1 duplicate_storage) = Inr True \<and>
   fst (loadGallery (snd (removeFromGallery 1 duplicate_storage))) =
     [saved_record 2 ''other'', saved_record 3 ''another''] \<and>
   fst (updateNote 1 ''x'' duplicate_storage) = Inr True \<and>
   fst (loadGallery (snd (updateNote 1 ''x'' duplicate_storage))) =
     [saved_record 2 ''other'', saved_record 1 ''x'',
      saved_record 3 ''another'', saved_record 1 ''second'']"
proof -
  have c: "entries duplicate_storage GALLERY_STORAGE_KEY
     = Some (JsonText (JArr ([stored_record 2 ''other''] @ stored_record 1 ''first'' #
         [stored_record 3 ''another''] @ stored_record 1 ''second'' # [])))"
    by (simp add: duplicate_storage_def)
  have p1: "SavedArtworkSchema_parse (stored_record 1 ''first'') = Inr (saved_record 1 ''first'')"
    and p2: "SavedArtworkSchema_parse (stored_record 1 ''second'')
      = Inr (saved_record 1 ''second'')"
    by (rule parse_stored_record)+
  have i1: "id' (saved_record 1 ''first'') = 1" and i2: "id' (saved_record 1 ''second'') = 1"
    by (simp_all add: saved_record_def)
  have q: "\<not> quota_exceeded duplicate_storage"
    by (simp add: duplicate_storage_def)
  have l: "length ''x'' \<le> 500"
    by simp
  have n: "\<forall>y\<in>set (accepted [stored_record 2 ''other'']). id' y \<noteq> 1"
    by (simp add: accepted_stored_record saved_record_def)
  have e: "(saved_record 1 ''first'')\<lparr>note' := ''x''\<rparr> = saved_record 1 ''x''"
    by (simp add: saved_record_def)
  have f: "id' (saved_record 2 ''other'') = 2" "id' (saved_record 3 ''another'') = 3"
    by (simp_all add: saved_record_def)
  note t = duplicates_loaded [OF c p1 p2 i1 i2 q l]
  have g: "fst (loadGallery duplicate_storage) =
     [saved_record 2 ''other'', saved_record 1 ''first'',
      saved_record 3 ''another'', saved_record 1 ''second'']"
    using t [THEN conjunct1] by (simp add: accepted_stored_record accepted_simps(1))
  have r: "fst (removeFromGallery 1 duplicate_storage) = Inr True"
    using t [THEN conjunct2, THEN conjunct1] by simp
  have rl: "fst (loadGallery (snd (removeFromGallery 1 duplicate_storage))) =
     [saved_record 2 ''other'', saved_record 3 ''another'']"
    using t [THEN conjunct2, THEN conjunct2, THEN conjunct1]
    by (simp add: accepted_stored_record accepted_simps(1) f)
  have u: "fst (updateNote 1 ''x'' duplicate_storage) = Inr True"
    using t [THEN conjunct2, THEN conjunct2, THEN conjunct2, THEN conjunct1] .
  have ul: "fst (loadGallery (snd (updateNote 1 ''x'' duplicate_storage))) =
     [saved_record 2 ''other'', saved_record 1 ''x'',
      saved_record 3 ''another'', saved_record 1 ''second'']"
    using t [THEN conjunct2, THEN conjunct2, THEN conjunct2, THEN conjunct2, THEN conjunct2,
        THEN mp, OF n]
    by (simp add: accepted_stored_record accepted_simps(1) e)
  have k: "accepted [stored_record 2 ''other''] = [saved_record 2 ''other'']"
    "id' (saved_record 2 ''other'') \<noteq> 1"
    by (simp_all add: accepted_stored_record f)
  from c p1 p2 i1 i2 q l k g r rl u ul show ?thesis
    by (intro conjI)
qed

end
